theory Spec2Isabelle
  imports Main "HOL-Library.AList"
begin

section \<open>The name tables of \<open>openage/convert/dataformat/aoc/internal_nyan_names.py\<close>\<close>

text \<open>
  The module consists of five dict displays that map a line id (a Python int) to the
  name of a nyan object (a Python str). A dict display is evaluated from left to right:
  every key/value pair is stored in turn, a pair whose key is already in the dict replaces
  the value and keeps the position of the key, a pair with a new key goes to the end.
  A dict is therefore modelled as an association list in insertion order, and storing a
  pair is \<open>AList.update\<close>.
\<close>

type_synonym pydict = "(int \<times> string) list"

definition dict_display :: "(int \<times> string) list \<Rightarrow> pydict" where
  "dict_display items = foldl (\<lambda>d (k, v). AList.update k v d) [] items"

text \<open>\<open>len(d)\<close>: the number of keys of a dict.\<close>

definition len :: "pydict \<Rightarrow> nat" where
  "len d = length d"

text \<open>The key/value pairs of the five displays, in the order in which the source lists them.\<close>

definition unit_line_items :: "(int \<times> string) list" where
  "unit_line_items =
    [(3, ''FishingShip''),
     (4, ''Swordsman''),
     (22, ''Archer''),
     (23, ''TradeCog''),
     (24, ''Spearman''),
     (26, ''Galley''),
     (27, ''TradeCart''),
     (28, ''Skirmisher''),
     (29, ''TransportShip''),
     (49, ''Ram''),
     (50, ''Cataphract''),
     (51, ''ChoKoNu''),
     (52, ''Conquistador''),
     (53, ''CamelRider''),
     (54, ''HorseArcher''),
     (55, ''Mameluke''),
     (56, ''EagleWarrior''),
     (57, ''FireTrireme''),
     (58, ''Huscarl''),
     (59, ''JaguarWarrior''),
     (60, ''Janissary''),
     (61, ''Knight''),
     (62, ''Longboat''),
     (63, ''Longbowman''),
     (64, ''Mangonel''),
     (66, ''Missionary''),
     (67, ''Mangudai''),
     (68, ''WarElephant''),
     (69, ''Petard''),
     (70, ''PlumedArcher''),
     (71, ''DemolitionShip''),
     (72, ''Scorpion''),
     (73, ''Samurai''),
     (74, ''Tarkan''),
     (75, ''ThrowingAxeman''),
     (76, ''TeutonicKnight''),
     (77, ''TurtleShip''),
     (78, ''Berserk''),
     (79, ''WarWaggon''),
     (80, ''WoadRaider''),
     (113, ''BombardCannon''),
     (114, ''CannonGalleon''),
     (115, ''HandCannoneer'')]"

definition building_line_items :: "(int \<times> string) list" where
  "building_line_items =
    [(12, ''Barracks''),
     (45, ''Harbor''),
     (49, ''SiegeWorkshop''),
     (50, ''Farm''),
     (68, ''Mill''),
     (70, ''House''),
     (72, ''PalisadeWall''),
     (79, ''Tower''),
     (82, ''Castle''),
     (84, ''Market''),
     (87, ''ArcheryRange''),
     (101, ''Stable''),
     (103, ''Blacksmith''),
     (104, ''Monastery''),
     (117, ''StoneWall''),
     (199, ''FishingTrap''),
     (209, ''University''),
     (236, ''BombardTower''),
     (276, ''Wonder''),
     (487, ''StoneGate''),
     (562, ''LumberCamp''),
     (584, ''MiningCamp''),
     (598, ''Outpost'')]"

definition transform_group_items :: "(int \<times> string) list" where
  "transform_group_items =
    [(116, ''Trebuchet'')]"

definition villager_group_items :: "(int \<times> string) list" where
  "villager_group_items =
    [(5, ''Villager'')]"

definition monk_group_items :: "(int \<times> string) list" where
  "monk_group_items =
    [(65, ''Monk'')]"

text \<open>The five module-level names, bound to the dicts that the displays evaluate to.\<close>

definition unit_line_lookups :: pydict where
  "unit_line_lookups = dict_display unit_line_items"

definition building_line_lookups :: pydict where
  "building_line_lookups = dict_display building_line_items"

definition transform_group_lookups :: pydict where
  "transform_group_lookups = dict_display transform_group_items"

definition villager_group_lookups :: pydict where
  "villager_group_lookups = dict_display villager_group_items"

definition monk_group_lookups :: pydict where
  "monk_group_lookups = dict_display monk_group_items"

section \<open>The registry and its lookup operation\<close>

text \<open>
  The state of the module after import: one dict per module-level name. The dicts are
  ordinary mutable Python objects, so every operation on the registry takes the state and
  returns it.
\<close>

record registry =
  unit_tbl :: pydict
  building_tbl :: pydict
  transform_group_tbl :: pydict
  villager_group_tbl :: pydict
  monk_group_tbl :: pydict

definition internal_nyan_names :: registry where
  "internal_nyan_names =
    \<lparr>unit_tbl = unit_line_lookups,
     building_tbl = building_line_lookups,
     transform_group_tbl = transform_group_lookups,
     villager_group_tbl = villager_group_lookups,
     monk_group_tbl = monk_group_lookups\<rparr>"

text \<open>
  Modelled from the spec: the category enumeration. The source has no such type, only the
  five module-level names; the spec (section 3) lists the categories unit, building,
  transform-group, villager-group and monk-group, one per table.
\<close>

datatype category = Unit | Building | TransformGroup | VillagerGroup | MonkGroup

fun items_of :: "category \<Rightarrow> (int \<times> string) list" where
  "items_of Unit = unit_line_items"
| "items_of Building = building_line_items"
| "items_of TransformGroup = transform_group_items"
| "items_of VillagerGroup = villager_group_items"
| "items_of MonkGroup = monk_group_items"

fun table :: "category \<Rightarrow> registry \<Rightarrow> pydict" where
  "table Unit r = unit_tbl r"
| "table Building r = building_tbl r"
| "table TransformGroup r = transform_group_tbl r"
| "table VillagerGroup r = villager_group_tbl r"
| "table MonkGroup r = monk_group_tbl r"

datatype error = NotFoundError

text \<open>
  The subscription \<open>d[key]\<close> of a dict: the value stored under the key, and \<open>KeyError\<close>
  for a key that the dict does not have; the spec calls the error \<open>NotFoundError\<close>.
\<close>

definition getitem :: "pydict \<Rightarrow> int \<Rightarrow> error + string" where
  "getitem d key = (case map_of d key of None \<Rightarrow> Inl NotFoundError | Some name \<Rightarrow> Inr name)"

text \<open>
  Modelled from the spec: the operation \<open>lookup(category, key) -> name\<close> of section 4.1.
  The source defines no function; the operation is the subscription of the table that
  belongs to the category. It returns its result together with the registry as the call
  leaves it.
\<close>

definition lookup :: "category \<Rightarrow> int \<Rightarrow> registry \<Rightarrow> (error + string) \<times> registry" where
  "lookup c key r = (getitem (table c r) key, r)"

section \<open>What a client can do with a table\<close>









section \<open>Names as identifiers\<close>

text \<open>
  The character classes of Python's \<open>str\<close> methods on ASCII text: \<open>c.isalnum()\<close> holds of
  the digits and the letters, \<open>c.isspace()\<close> of the blank, of the control characters
  \<open>\t \n \v \f \r\<close> and of the four separators \<open>\x1c\<close> to \<open>\x1f\<close>.
\<close>

definition isalnum_char :: "char \<Rightarrow> bool" where
  "isalnum_char c =
    (let n = (of_char c :: nat)
     in (48 \<le> n \<and> n \<le> 57) \<or> (65 \<le> n \<and> n \<le> 90) \<or> (97 \<le> n \<and> n \<le> 122))"

definition isspace_char :: "char \<Rightarrow> bool" where
  "isspace_char c =
    (let n = (of_char c :: nat)
     in n = 32 \<or> (9 \<le> n \<and> n \<le> 13) \<or> (28 \<le> n \<and> n \<le> 31))"

text \<open>\<open>s.isalnum()\<close>: the string has at least one character and all of them are alphanumeric.\<close>

definition isalnum :: "string \<Rightarrow> bool" where
  "isalnum s = (s \<noteq> [] \<and> list_all isalnum_char s)"

section \<open>Dict displays\<close>

lemma update_fresh: "k \<notin> fst ` set d \<Longrightarrow> AList.update k v d = d @ [(k, v)]"
  by (induction d) auto

lemma foldl_update_distinct:
  "distinct (map fst (d @ items))
    \<Longrightarrow> foldl (\<lambda>d (k, v). AList.update k v d) d items = d @ items"
proof (induction items arbitrary: d)
  case Nil
  then show ?case by simp
next
  case (Cons p items)
  obtain k v where p: "p = (k, v)" by (cases p)
  from Cons.prems have fresh: "k \<notin> fst ` set d" by (auto simp: p)
  from Cons.prems have "distinct (map fst ((d @ [(k, v)]) @ items))" by (simp add: p)
  from Cons.IH [OF this] show ?case by (simp add: p update_fresh [OF fresh])
qed

text \<open>A display that writes no key twice evaluates to the dict of its pairs, in their order.\<close>

lemma dict_display_distinct: "distinct (map fst items) \<Longrightarrow> dict_display items = items"
  using foldl_update_distinct [of "[]" items] by (simp add: dict_display_def)

lemma foldl_update_keys_distinct:
  "distinct (map fst d)
    \<Longrightarrow> distinct (map fst (foldl (\<lambda>d (k, v). AList.update k v d) d items))"
  by (induction items arbitrary: d) (auto simp: distinct_update)

text \<open>Whatever the display, the dict it evaluates to has every key once.\<close>

lemma dict_display_keys_distinct: "distinct (map fst (dict_display items))"
  by (simp add: dict_display_def foldl_update_keys_distinct)

section \<open>The five tables\<close>

lemma unit_line_keys: "distinct (map fst unit_line_items)"
  by (simp add: unit_line_items_def)

lemma building_line_keys: "distinct (map fst building_line_items)"
  by (simp add: building_line_items_def)

lemma transform_group_keys: "distinct (map fst transform_group_items)"
  by (simp add: transform_group_items_def)

lemma villager_group_keys: "distinct (map fst villager_group_items)"
  by (simp add: villager_group_items_def)

lemma monk_group_keys: "distinct (map fst monk_group_items)"
  by (simp add: monk_group_items_def)

lemma items_of_keys: "distinct (map fst (items_of c))"
  by (cases c)
    (simp_all add: unit_line_keys building_line_keys transform_group_keys
      villager_group_keys monk_group_keys)

text \<open>Each table holds exactly the pairs that the source writes.\<close>

lemma table_items: "table c internal_nyan_names = items_of c"
  by (cases c)
    (simp_all add: internal_nyan_names_def unit_line_lookups_def building_line_lookups_def
      transform_group_lookups_def villager_group_lookups_def monk_group_lookups_def
      dict_display_distinct unit_line_keys building_line_keys transform_group_keys
      villager_group_keys monk_group_keys)

lemma lookup_items:
  "fst (lookup c key internal_nyan_names) =
    (case map_of (items_of c) key of None \<Rightarrow> Inl NotFoundError | Some name \<Rightarrow> Inr name)"
  by (simp add: lookup_def getitem_def table_items)

lemma unit_line_names: "distinct (map snd unit_line_items)"
  by (simp add: unit_line_items_def)

lemma building_line_names: "distinct (map snd building_line_items)"
  by (simp add: building_line_items_def)

lemma items_of_names: "distinct (map snd (items_of c))"
  by (cases c)
    (simp_all add: unit_line_names building_line_names transform_group_items_def
      villager_group_items_def monk_group_items_def)

lemma unit_line_alnum: "list_all (\<lambda>p. isalnum (snd p)) unit_line_items"
  by (simp add: unit_line_items_def isalnum_def isalnum_char_def)

lemma building_line_alnum: "list_all (\<lambda>p. isalnum (snd p)) building_line_items"
  by (simp add: building_line_items_def isalnum_def isalnum_char_def)

lemma transform_group_alnum: "list_all (\<lambda>p. isalnum (snd p)) transform_group_items"
  by (simp add: transform_group_items_def isalnum_def isalnum_char_def)

lemma villager_group_alnum: "list_all (\<lambda>p. isalnum (snd p)) villager_group_items"
  by (simp add: villager_group_items_def isalnum_def isalnum_char_def)

lemma monk_group_alnum: "list_all (\<lambda>p. isalnum (snd p)) monk_group_items"
  by (simp add: monk_group_items_def isalnum_def isalnum_char_def)

lemma items_of_alnum: "list_all (\<lambda>p. isalnum (snd p)) (items_of c)"
  by (cases c)
    (simp_all add: unit_line_alnum building_line_alnum transform_group_alnum
      villager_group_alnum monk_group_alnum)

lemma alnum_not_space: "isalnum_char ch \<Longrightarrow> \<not> isspace_char ch"
  by (auto simp: isalnum_char_def isspace_char_def Let_def)

section \<open>Lookup of a key\<close>

text \<open>
  C1. For every pair of a category and a key that is present in the category's table,
  \<open>lookup\<close> on the registry of the module returns exactly the name that the table stores
  under the key. In particular \<open>lookup(unit, 4)\<close> is \<open>Swordsman\<close> and
  \<open>lookup(building, 82)\<close> is \<open>Castle\<close>.
\<close>

theorem lookup_present:
  "((key, name) \<in> set (table c internal_nyan_names)
      \<longrightarrow> fst (lookup c key internal_nyan_names) = Inr name)
   \<and> ((key, name) \<in> set (items_of c)
      \<longrightarrow> fst (lookup c key internal_nyan_names) = Inr name)
   \<and> fst (lookup Unit 4 internal_nyan_names) = Inr ''Swordsman''
   \<and> fst (lookup Building 82 internal_nyan_names) = Inr ''Castle''"
proof -
  have stored: "fst (lookup c key internal_nyan_names) = Inr name"
    if "(key, name) \<in> set (items_of c)"
  proof -
    from that have "map_of (items_of c) key = Some name"
      by (simp add: items_of_keys)
    then show ?thesis by (simp add: lookup_items)
  qed
  have swordsman: "fst (lookup Unit 4 internal_nyan_names) = Inr ''Swordsman''"
    by (simp add: lookup_items unit_line_items_def)
  have castle: "fst (lookup Building 82 internal_nyan_names) = Inr ''Castle''"
    by (simp add: lookup_items building_line_items_def)
  from stored swordsman castle show ?thesis by (simp add: table_items)
qed

theorem lookup_present_witness:
  "(65, ''Monk'') \<in> set (table MonkGroup internal_nyan_names)
   \<and> (65, ''Monk'') \<in> set (items_of MonkGroup)
   \<and> fst (lookup MonkGroup 65 internal_nyan_names) = Inr ''Monk''"
proof -
  have stored: "(65, ''Monk'') \<in> set (items_of MonkGroup)"
    by (simp add: monk_group_items_def)
  then have "(65, ''Monk'') \<in> set (table MonkGroup internal_nyan_names)"
    by (simp add: table_items)
  with stored lookup_present [of 65 "''Monk''" MonkGroup] show ?thesis by blast
qed

text \<open>
  C2. For every category and every integer key, so in particular every non-negative one,
  that is absent from the category's table, \<open>lookup\<close> on the registry of the module fails
  with \<open>NotFoundError\<close> and returns no string. In particular \<open>lookup(unit, 9999)\<close> fails
  with \<open>NotFoundError\<close>.
\<close>

theorem lookup_absent:
  "(key \<notin> fst ` set (table c internal_nyan_names)
      \<longrightarrow> fst (lookup c key internal_nyan_names) = Inl NotFoundError
        \<and> (\<forall>name. fst (lookup c key internal_nyan_names) \<noteq> Inr name))
   \<and> fst (lookup Unit 9999 internal_nyan_names) = Inl NotFoundError"
proof -
  have missing: "fst (lookup c key internal_nyan_names) = Inl NotFoundError"
    if "key \<notin> fst ` set (items_of c)"
  proof -
    from that have "map_of (items_of c) key = None"
      by (simp add: map_of_eq_None_iff)
    then show ?thesis by (simp add: lookup_items)
  qed
  have "fst (lookup Unit 9999 internal_nyan_names) = Inl NotFoundError"
    by (simp add: lookup_items unit_line_items_def)
  with missing show ?thesis by (simp add: table_items)
qed

theorem lookup_absent_witness:
  "4 \<notin> fst ` set (table Building internal_nyan_names)
   \<and> fst (lookup Building 4 internal_nyan_names) = Inl NotFoundError
   \<and> fst (lookup Building 4 internal_nyan_names) \<noteq> Inr ''Swordsman''"
proof -
  have "4 \<notin> fst ` set (items_of Building)"
    by (simp add: building_line_items_def)
  then have "4 \<notin> fst ` set (table Building internal_nyan_names)"
    by (simp add: table_items)
  with lookup_absent [of 4 Building] show ?thesis by blast
qed

section \<open>Size of the tables\<close>

text \<open>
  C3, as the spec states it, fails: the unit table does not have 42 entries.
\<close>

theorem unit_table_size_counterexample:
  "\<not> (len unit_line_lookups = 42 \<and> len building_line_lookups = 23)"
  by (simp add: len_def unit_line_lookups_def dict_display_distinct unit_line_keys
      unit_line_items_def)

text \<open>
  C3, amended. The unit table contains exactly 43 entries and the building table contains
  exactly 23 entries; these are also the numbers of pairs that the two displays write.
\<close>

theorem table_sizes:
  "len unit_line_lookups = 43 \<and> len building_line_lookups = 23
   \<and> length unit_line_items = 43 \<and> length building_line_items = 23"
proof -
  have "length unit_line_items = 43"
    by (simp add: unit_line_items_def)
  moreover have "length building_line_items = 23"
    by (simp add: building_line_items_def)
  ultimately show ?thesis
    by (simp add: len_def unit_line_lookups_def building_line_lookups_def
        dict_display_distinct unit_line_keys building_line_keys)
qed

section \<open>Keys and names of a table\<close>

text \<open>
  C4. Within each of the five tables every key is unique: neither the display in the
  source nor the dict it evaluates to has two entries with the same key, so that for every
  key a table has at most one entry, and with it at most one value.
\<close>

theorem keys_unique:
  "distinct (map fst (items_of c))
   \<and> distinct (map fst (table c internal_nyan_names))
   \<and> length (filter (\<lambda>entry. fst entry = key) (table c internal_nyan_names)) \<le> 1"
proof -
  have "length (filter (\<lambda>entry. fst entry = key) xs) \<le> 1"
    if "distinct (map fst xs)" for xs :: "(int \<times> string) list"
    using that by (induction xs) (auto simp: filter_empty_conv image_iff)
  from this [OF items_of_keys] show ?thesis
    by (simp add: table_items items_of_keys)
qed

text \<open>
  C5. Every value stored in any of the five tables is a non-empty string that consists of
  alphanumeric characters only and contains no whitespace.
\<close>

theorem names_alphanumeric:
  "(key, name) \<in> set (table c internal_nyan_names)
    \<Longrightarrow> name \<noteq> [] \<and> list_all isalnum_char name \<and> \<not> list_ex isspace_char name"
proof -
  assume "(key, name) \<in> set (table c internal_nyan_names)"
  then have "(key, name) \<in> set (items_of c)"
    by (simp add: table_items)
  with items_of_alnum [of c] have "isalnum name"
    by (auto simp: list_all_iff)
  then show ?thesis
    by (auto simp: isalnum_def list_all_iff list_ex_iff dest: alnum_not_space)
qed

theorem names_alphanumeric_witness:
  "(113, ''BombardCannon'') \<in> set (table Unit internal_nyan_names)
   \<and> ''BombardCannon'' \<noteq> [] \<and> list_all isalnum_char ''BombardCannon''
   \<and> \<not> list_ex isspace_char ''BombardCannon''"
proof -
  have "(113, ''BombardCannon'') \<in> set (items_of Unit)"
    by (simp add: unit_line_items_def)
  then have stored: "(113, ''BombardCannon'') \<in> set (table Unit internal_nyan_names)"
    by (simp add: table_items)
  from names_alphanumeric [OF stored] stored show ?thesis by blast
qed

text \<open>
  C10. Within each of the five tables the mapping is injective: the names of a table are
  pairwise different, so two entries of one table that carry the same name have the same
  key.
\<close>

theorem names_injective:
  "distinct (map snd (table c internal_nyan_names))
   \<and> ((key, name) \<in> set (table c internal_nyan_names)
        \<and> (key', name) \<in> set (table c internal_nyan_names) \<longrightarrow> key = key')"
proof -
  have names: "distinct (map snd (table c internal_nyan_names))"
    by (simp add: table_items items_of_names)
  then have "inj_on snd (set (table c internal_nyan_names))"
    by (simp add: distinct_map)
  then have "key = key'"
    if "(key, name) \<in> set (table c internal_nyan_names)"
      and "(key', name) \<in> set (table c internal_nyan_names)"
    using that by (fastforce simp: inj_on_def)
  with names show ?thesis by blast
qed

theorem names_injective_witness:
  "(82, ''Castle'') \<in> set (table Building internal_nyan_names)
   \<and> distinct (map snd (table Building internal_nyan_names))
   \<and> (84, ''Castle'') \<notin> set (table Building internal_nyan_names)"
proof -
  have "(82, ''Castle'') \<in> set (items_of Building)"
    by (simp add: building_line_items_def)
  then have stored: "(82, ''Castle'') \<in> set (table Building internal_nyan_names)"
    by (simp add: table_items)
  from names_injective [of Building 82 "''Castle''" 82] stored
  have same: "distinct (map snd (table Building internal_nyan_names)) \<and> (82::int) = 82"
    by blast
  from names_injective [of Building 82 "''Castle''" 84] stored
  have "(84, ''Castle'') \<notin> set (table Building internal_nyan_names)"
    by auto
  with stored same show ?thesis by blast
qed

text \<open>
  C9. Keys are unique within a table only: the key 49 is in the unit table and in the
  building table, with the name \<open>Ram\<close> in the one and \<open>SiegeWorkshop\<close> in the other,
  so that the keys of the two tables together are not pairwise different and the result of
  \<open>lookup\<close> for the key 49 depends on the category.
\<close>

theorem key_in_two_tables:
  "(49, ''Ram'') \<in> set (table Unit internal_nyan_names)
   \<and> (49, ''SiegeWorkshop'') \<in> set (table Building internal_nyan_names)
   \<and> fst (lookup Unit 49 internal_nyan_names) = Inr ''Ram''
   \<and> fst (lookup Building 49 internal_nyan_names) = Inr ''SiegeWorkshop''
   \<and> fst (lookup Unit 49 internal_nyan_names) \<noteq> fst (lookup Building 49 internal_nyan_names)
   \<and> \<not> distinct (map fst (table Unit internal_nyan_names @ table Building internal_nyan_names))"
proof -
  have ram: "(49, ''Ram'') \<in> set (items_of Unit)"
    by (simp add: unit_line_items_def)
  have workshop: "(49, ''SiegeWorkshop'') \<in> set (items_of Building)"
    by (simp add: building_line_items_def)
  have unit: "fst (lookup Unit 49 internal_nyan_names) = Inr ''Ram''"
    by (simp add: lookup_items unit_line_items_def)
  have building: "fst (lookup Building 49 internal_nyan_names) = Inr ''SiegeWorkshop''"
    by (simp add: lookup_items building_line_items_def)
  from ram workshop have "49 \<in> fst ` set (items_of Unit) \<inter> fst ` set (items_of Building)"
    by force
  then have "\<not> distinct (map fst (items_of Unit @ items_of Building))"
    by auto
  with ram workshop unit building show ?thesis
    by (simp add: table_items)
qed

section \<open>What changes a table\<close>








end
